theory Spec2Isabelle
  imports Complex_Main "HOL-Library.Word"
begin

section \<open>JavaScript values used by the component\<close>

text \<open>
  A JavaScript string is a sequence of UTF-16 code units. String literals of the
  source that are plain ASCII are written with \<open>ascii\<close>; the one literal with a
  non-ASCII character (the em dash U+2014 in the "not installed" status) is spelled
  out by its code unit.
\<close>

type_synonym jsstring = "16 word list"

definition ascii :: "string \<Rightarrow> jsstring" where
  "ascii s = map of_char s"

text \<open>
  \<open>String.prototype.trim\<close> removes the ECMAScript WhiteSpace and LineTerminator
  code points from both ends: TAB, VT, FF, SP, NBSP, ZWNBSP, the Unicode space
  separators (U+1680, U+2000..U+200A, U+202F, U+205F, U+3000) and LF, CR, LS, PS.
  All of them are single code units.
\<close>

definition is_white_space :: "16 word \<Rightarrow> bool" where
  "is_white_space c =
     (c \<in> {0x9, 0xA, 0xB, 0xC, 0xD, 0x20, 0xA0, 0x1680, 0x2028, 0x2029,
            0x202F, 0x205F, 0x3000, 0xFEFF}
      \<or> (0x2000 \<le> c \<and> c \<le> 0x200A))"

definition js_trim :: "jsstring \<Rightarrow> jsstring" where
  "js_trim s = rev (dropWhile is_white_space (rev (dropWhile is_white_space s)))"

text \<open>Truthiness of a string (\<open>""\<close> is falsy) and of a \<open>string | null\<close>.\<close>

definition truthy :: "jsstring \<Rightarrow> bool" where
  "truthy s = (s \<noteq> [])"

definition truthy_opt :: "jsstring option \<Rightarrow> bool" where
  "truthy_opt v = (case v of None \<Rightarrow> False | Some s \<Rightarrow> truthy s)"

text \<open>A \<open>string | null\<close> inside a template literal: \<open>null\<close> prints as "null".\<close>

definition template_str :: "jsstring option \<Rightarrow> jsstring" where
  "template_str v = (case v of None \<Rightarrow> ascii ''null'' | Some s \<Rightarrow> s)"

text \<open>The nullish coalescing operator \<open>??\<close>.\<close>

definition nullish :: "'a option \<Rightarrow> 'a \<Rightarrow> 'a" where
  "nullish v d = (case v of None \<Rightarrow> d | Some x \<Rightarrow> x)"

section \<open>Data model of \<open>App.tsx\<close>\<close>

record DepsStatus =
  ytdlp :: bool
  ffmpeg :: bool

record Settings =
  save_path :: jsstring
  audio_format :: jsstring
  playlist_mode :: bool

record VersionInfo =
  local :: "jsstring option"
  latest :: "jsstring option"
  download_url :: "jsstring option"
  update_available :: bool

record FfmpegInfo =
  installed :: bool
  version :: "jsstring option"

text \<open>\<open>Partial<Settings>\<close>: every field may be absent.\<close>

record SettingsOverrides =
  o_save_path :: "jsstring option"
  o_audio_format :: "jsstring option"
  o_playlist_mode :: "bool option"

definition no_overrides :: SettingsOverrides where
  "no_overrides = \<lparr>o_save_path = None, o_audio_format = None, o_playlist_mode = None\<rparr>"

text \<open>
  The \<open>useState\<close> cells of the component. \<open>progress\<close> is a JavaScript number; it is
  only stored and compared, never computed with, and is modelled as a real.
\<close>

record app_state =
  url :: jsstring
  format :: jsstring
  playlist :: bool
  savePath :: jsstring
  logs :: "jsstring list"
  progress :: real
  status :: jsstring
  downloading :: bool
  deps :: DepsStatus
  updating :: bool
  showFfmpegPrompt :: bool

definition initial_state :: app_state where
  "initial_state =
     \<lparr>url = [], format = ascii ''best'', playlist = False, savePath = [], logs = [],
      progress = 0, status = ascii ''Ready'', downloading = False,
      deps = \<lparr>ytdlp = True, ffmpeg = True\<rparr>, updating = False,
      showFfmpegPrompt = False\<rparr>"

text \<open>The backend commands the component invokes, with their arguments.\<close>

datatype cmd =
    CheckDependencies
  | GetSettings
  | SaveSettings Settings
  | StartDownload jsstring jsstring bool jsstring
  | CancelDownload
  | CheckYtdlpUpdate
  | UpdateYtdlp jsstring
  | CheckFfmpeg
  | InstallFfmpeg

text \<open>
  The answer of an \<open>invoke\<close>: the promise resolves with a value (\<open>Inr\<close>) or rejects
  with an error (\<open>Inl\<close>), which the source only ever prints through a template
  literal, so it is kept as the printed string.
\<close>

type_synonym 'a result = "jsstring + 'a"

text \<open>A running handler: the live state and the commands invoked so far.\<close>

type_synonym running = "app_state \<times> cmd list"

text \<open>A handler that threw: the error, and where it was when it threw.\<close>

type_synonym thrown = "jsstring \<times> app_state \<times> cmd list"

definition invoke :: "cmd \<Rightarrow> 'a result \<Rightarrow> running \<Rightarrow> thrown + ('a \<times> running)" where
  "invoke c r w =
     (case w of (st, cs) \<Rightarrow>
        (case r of
           Inl e \<Rightarrow> Inl (e, st, cs @ [c])
         | Inr v \<Rightarrow> Inr (v, (st, cs @ [c]))))"

section \<open>Backend events\<close>

datatype event =
    DownloadLog jsstring
  | DownloadProgress real
  | DownloadComplete jsstring
  | UpdateLog jsstring

text \<open>The four listeners registered on mount.\<close>

fun on_event :: "event \<Rightarrow> app_state \<Rightarrow> app_state" where
  "on_event (DownloadLog payload) st = st\<lparr>logs := logs st @ [payload]\<rparr>"
| "on_event (DownloadProgress payload) st = st\<lparr>progress := payload\<rparr>"
| "on_event (DownloadComplete payload) st =
     (let st1 = st\<lparr>downloading := False\<rparr> in
      if payload = ascii ''success''
      then st1\<lparr>status := ascii ''Download complete'', progress := 100\<rparr>
      else st1\<lparr>status := ascii ''Download failed ('' @ payload @ ascii '')''\<rparr>)"
| "on_event (UpdateLog payload) st = st\<lparr>logs := logs st @ [payload]\<rparr>"

text \<open>Delivering a list of events in order, and the states seen after each one.\<close>

fun deliver :: "event list \<Rightarrow> app_state \<Rightarrow> app_state" where
  "deliver [] st = st"
| "deliver (e # es) st = deliver es (on_event e st)"

fun observed :: "event list \<Rightarrow> app_state \<Rightarrow> app_state list" where
  "observed [] st = []"
| "observed (e # es) st = on_event e st # observed es (on_event e st)"

section \<open>Handlers\<close>

text \<open>
  A handler is a closure created by one render: what it \<^emph>\<open>reads\<close> from the component
  (\<open>url\<close>, \<open>format\<close>, \<open>showFfmpegPrompt\<close>, ...) are the constants of that render, the
  snapshot \<open>snap\<close>, while its setters write the live state \<open>st\<close>. Each handler takes the
  answers of the backend to the invocations it awaits and returns the new state with
  the commands it invoked, in order.
\<close>

definition refreshDeps :: "DepsStatus result \<Rightarrow> running \<Rightarrow> thrown + running" where
  "refreshDeps r_deps w =
     (case invoke CheckDependencies r_deps w of
        Inl t \<Rightarrow> Inl t
      | Inr (d, (st, cs)) \<Rightarrow> Inr (st\<lparr>deps := d\<rparr>, cs))"

text \<open>
  The mount effect. Neither promise has a rejection handler: a rejected
  \<open>get_settings\<close> or \<open>check_dependencies\<close> leaves the state as it is.
\<close>

definition on_mount :: "Settings result \<Rightarrow> DepsStatus result \<Rightarrow> app_state \<Rightarrow> app_state \<times> cmd list" where
  "on_mount r_settings r_deps st =
     (let st1 = (case r_settings of
                   Inl e \<Rightarrow> st
                 | Inr s \<Rightarrow> st\<lparr>savePath := save_path s, format := audio_format s,
                              playlist := playlist_mode s\<rparr>);
          st2 = (case r_deps of Inl e \<Rightarrow> st1 | Inr d \<Rightarrow> st1\<lparr>deps := d\<rparr>)
      in (st2, [GetSettings, CheckDependencies]))"

text \<open>\<open>saveCurrentSettings\<close> invokes \<open>save_settings\<close> and drops the promise.\<close>

definition saveCurrentSettings :: "app_state \<Rightarrow> SettingsOverrides \<Rightarrow> cmd" where
  "saveCurrentSettings snap overrides =
     SaveSettings
       \<lparr>save_path = nullish (o_save_path overrides) (savePath snap),
        audio_format = nullish (o_audio_format overrides) (format snap),
        playlist_mode = nullish (o_playlist_mode overrides) (playlist snap)\<rparr>"

definition pickFolder :: "app_state \<Rightarrow> jsstring option \<Rightarrow> app_state \<Rightarrow> app_state \<times> cmd list" where
  "pickFolder snap selected st =
     (case selected of
        None \<Rightarrow> (st, [])
      | Some p \<Rightarrow>
          if truthy p
          then (st\<lparr>savePath := p\<rparr>,
                [saveCurrentSettings snap (no_overrides\<lparr>o_save_path := Some p\<rparr>)])
          else (st, []))"

definition handleDownload :: "app_state \<Rightarrow> unit result \<Rightarrow> app_state \<Rightarrow> app_state \<times> cmd list" where
  "handleDownload snap r_start st =
     (if \<not> truthy (js_trim (url snap))
      then (st\<lparr>status := ascii ''Enter a URL first''\<rparr>, [])
      else
        let st1 = st\<lparr>logs := [], progress := 0, downloading := True,
                     status := ascii ''Downloading...''\<rparr>;
            w1 = (st1, [saveCurrentSettings snap no_overrides])
        in (case invoke (StartDownload (js_trim (url snap)) (format snap) (playlist snap)
                           (savePath snap)) r_start w1 of
              Inr (u, w2) \<Rightarrow> w2
            | Inl (e, st2, cs) \<Rightarrow>
                (st2\<lparr>status := ascii ''Error: '' @ e, downloading := False\<rparr>, cs)))"

text \<open>
  The promise \<open>saveCurrentSettings\<close> drops: \<open>invoke("save_settings", ...)\<close> is an
  expression statement outside every \<open>try\<close>, with no \<open>await\<close>, \<open>then\<close> or
  \<open>catch\<close>. When it settles no code of the component runs, so resolved or rejected
  the state stays as it is.
\<close>

definition save_settings_settled :: "unit result \<Rightarrow> app_state \<Rightarrow> app_state" where
  "save_settings_settled r_save st = (case r_save of Inr u \<Rightarrow> st | Inl e \<Rightarrow> st)"

text \<open>
  A download request with the answers to both invocations it makes. A request rejected
  for its URL returns before \<open>saveCurrentSettings\<close> and has no promise to settle.
  Whether \<open>save_settings\<close> settles before or after \<open>start_download\<close> makes no
  difference, since its settling runs no setter.
\<close>

definition download_request ::
  "app_state \<Rightarrow> unit result \<Rightarrow> unit result \<Rightarrow> app_state \<Rightarrow> app_state \<times> cmd list" where
  "download_request snap r_save r_start st =
     (if \<not> truthy (js_trim (url snap))
      then handleDownload snap r_start st
      else (case handleDownload snap r_start st of
              (st1, cs) \<Rightarrow> (save_settings_settled r_save st1, cs)))"

definition handleCancel :: "unit result \<Rightarrow> app_state \<Rightarrow> app_state \<times> cmd list" where
  "handleCancel r_cancel st =
     (case invoke CancelDownload r_cancel (st, []) of
        Inr (u, (st1, cs)) \<Rightarrow> (st1\<lparr>status := ascii ''Cancelled'', downloading := False\<rparr>, cs)
      | Inl (e, st1, cs) \<Rightarrow> (st1\<lparr>status := ascii ''Cancel error: '' @ e\<rparr>, cs))"

text \<open>\<open>if (ytInfo.download_url) await invoke("update_ytdlp", ...)\<close>, used by both branches.\<close>

definition update_ytdlp_if_url :: "VersionInfo \<Rightarrow> unit result \<Rightarrow> running \<Rightarrow> thrown + running" where
  "update_ytdlp_if_url ytInfo r_upd w =
     (case download_url ytInfo of
        None \<Rightarrow> Inr w
      | Some u \<Rightarrow>
          if truthy u
          then (case invoke (UpdateYtdlp u) r_upd w of
                  Inl t \<Rightarrow> Inl t
                | Inr (x, w1) \<Rightarrow> Inr w1)
          else Inr w)"

text \<open>Step 1 of the \<open>try\<close> block of \<open>handleCheckUpdate\<close>, after \<open>check_ytdlp_update\<close> answered.\<close>

definition check_ytdlp_branch :: "VersionInfo \<Rightarrow> unit result \<Rightarrow> running \<Rightarrow> thrown + running" where
  "check_ytdlp_branch ytInfo r_upd w =
     (case w of (st, cs) \<Rightarrow>
        if \<not> truthy_opt (local ytInfo)
        then update_ytdlp_if_url ytInfo r_upd
               (st\<lparr>status := ascii ''yt-dlp not installed '' @ [0x2014]
                               @ ascii '' downloading...''\<rparr>, cs)
        else if update_available ytInfo
        then update_ytdlp_if_url ytInfo r_upd
               (st\<lparr>status := ascii ''Updating yt-dlp: '' @ template_str (local ytInfo)
                               @ ascii '' -> '' @ template_str (latest ytInfo)
                               @ ascii ''...''\<rparr>, cs)
        else Inr (st\<lparr>logs := logs st @ [ascii ''yt-dlp '' @ template_str (local ytInfo)
                                          @ ascii '' is up to date'']\<rparr>, cs))"

text \<open>Step 2, after \<open>check_ffmpeg\<close> answered.\<close>

definition check_ffmpeg_branch :: "FfmpegInfo \<Rightarrow> running \<Rightarrow> running" where
  "check_ffmpeg_branch ffInfo w =
     (case w of (st, cs) \<Rightarrow>
        if \<not> installed ffInfo
        then (st\<lparr>showFfmpegPrompt := True,
                  status := ascii ''ffmpeg not found. Install it?''\<rparr>, cs)
        else (st\<lparr>logs := logs st @ [ascii ''ffmpeg ''
                                       @ nullish (version ffInfo) (ascii ''(found)'')
                                       @ ascii '' is installed''],
                  status := ascii ''Everything is up to date''\<rparr>, cs))"

definition check_update_try ::
  "VersionInfo result \<Rightarrow> unit result \<Rightarrow> FfmpegInfo result \<Rightarrow> DepsStatus result
     \<Rightarrow> running \<Rightarrow> thrown + running" where
  "check_update_try r_yt r_upd r_ff r_deps w0 =
     (case invoke CheckYtdlpUpdate r_yt w0 of
        Inl t \<Rightarrow> Inl t
      | Inr (ytInfo, w1) \<Rightarrow>
          (case check_ytdlp_branch ytInfo r_upd w1 of
             Inl t \<Rightarrow> Inl t
           | Inr w2 \<Rightarrow>
               (case invoke CheckFfmpeg r_ff w2 of
                  Inl t \<Rightarrow> Inl t
                | Inr (ffInfo, w3) \<Rightarrow> refreshDeps r_deps (check_ffmpeg_branch ffInfo w3))))"

text \<open>
  \<open>handleCheckUpdate\<close>: the \<open>finally\<close> block tests \<open>showFfmpegPrompt\<close>, a constant of the
  render that created the handler, not the cell that \<open>setShowFfmpegPrompt\<close> has just
  written.
\<close>

definition handleCheckUpdate ::
  "app_state \<Rightarrow> VersionInfo result \<Rightarrow> unit result \<Rightarrow> FfmpegInfo result \<Rightarrow> DepsStatus result
     \<Rightarrow> app_state \<Rightarrow> app_state \<times> cmd list" where
  "handleCheckUpdate snap r_yt r_upd r_ff r_deps st =
     (let w0 = (st\<lparr>updating := True, logs := [],
                    status := ascii ''Checking for updates...''\<rparr>, []);
          w1 = (case check_update_try r_yt r_upd r_ff r_deps w0 of
                  Inr w \<Rightarrow> w
                | Inl (e, st1, cs) \<Rightarrow>
                    (st1\<lparr>status := ascii ''Update check failed: '' @ e\<rparr>, cs))
      in (case w1 of (st2, cs) \<Rightarrow>
            if \<not> showFfmpegPrompt snap then (st2\<lparr>updating := False\<rparr>, cs) else (st2, cs)))"

definition handleInstallFfmpeg ::
  "unit result \<Rightarrow> DepsStatus result \<Rightarrow> app_state \<Rightarrow> app_state \<times> cmd list" where
  "handleInstallFfmpeg r_inst r_deps st =
     (let w0 = (st\<lparr>showFfmpegPrompt := False, status := ascii ''Installing ffmpeg...''\<rparr>, []);
          tried = (case invoke InstallFfmpeg r_inst w0 of
                     Inl t \<Rightarrow> Inl t
                   | Inr (u, (st1, cs)) \<Rightarrow>
                       refreshDeps r_deps
                         (st1\<lparr>status := ascii ''ffmpeg installed successfully''\<rparr>, cs));
          w1 = (case tried of
                  Inr w \<Rightarrow> w
                | Inl (e, st1, cs) \<Rightarrow>
                    (st1\<lparr>status := ascii ''ffmpeg install failed: '' @ e\<rparr>, cs))
      in (case w1 of (st2, cs) \<Rightarrow> (st2\<lparr>updating := False\<rparr>, cs)))"

definition handleDeclineFfmpeg :: "app_state \<Rightarrow> app_state \<times> cmd list" where
  "handleDeclineFfmpeg st =
     (st\<lparr>showFfmpegPrompt := False, updating := False,
         status := ascii ''ffmpeg installation skipped''\<rparr>, [])"

section \<open>The rendered controls\<close>

text \<open>
  What the user can do, with the backend's answers to the invocations the action
  leads to, and the events the backend pushes.
\<close>

datatype action =
    TypeUrl jsstring
  | SelectFormat jsstring
  | TogglePlaylist bool
  | Browse "jsstring option"
  | ClickDownload "unit result"
  | ClickCancel "unit result"
  | ClickCheckUpdate "VersionInfo result" "unit result" "FfmpegInfo result" "DepsStatus result"
  | ClickInstallFfmpeg "unit result" "DepsStatus result"
  | ClickSkipFfmpeg
  | Backend event

text \<open>The JSX: which control is rendered and not disabled in a state.\<close>

fun enabled :: "app_state \<Rightarrow> action \<Rightarrow> bool" where
  "enabled st (TypeUrl v) = (\<not> downloading st)"
| "enabled st (SelectFormat v) = (\<not> downloading st)"
| "enabled st (TogglePlaylist b) = (\<not> downloading st)"
| "enabled st (Browse sel) = (\<not> downloading st)"
| "enabled st (ClickDownload r) = (\<not> downloading st \<and> ytdlp (deps st))"
| "enabled st (ClickCancel r) = downloading st"
| "enabled st (ClickCheckUpdate r_yt r_upd r_ff r_deps) = (\<not> (downloading st \<or> updating st))"
| "enabled st (ClickInstallFfmpeg r_inst r_deps) = showFfmpegPrompt st"
| "enabled st ClickSkipFfmpeg = showFfmpegPrompt st"
| "enabled st (Backend e) = True"

text \<open>
  Dispatching an action: the handler attached to the control is the closure of the
  render of the current state.
\<close>

fun step :: "action \<Rightarrow> app_state \<Rightarrow> app_state \<times> cmd list" where
  "step (TypeUrl v) st = (st\<lparr>url := v\<rparr>, [])"
| "step (SelectFormat v) st =
     (st\<lparr>format := v\<rparr>, [saveCurrentSettings st (no_overrides\<lparr>o_audio_format := Some v\<rparr>)])"
| "step (TogglePlaylist b) st =
     (st\<lparr>playlist := b\<rparr>, [saveCurrentSettings st (no_overrides\<lparr>o_playlist_mode := Some b\<rparr>)])"
| "step (Browse sel) st = pickFolder st sel st"
| "step (ClickDownload r) st = handleDownload st r st"
| "step (ClickCancel r) st = handleCancel r st"
| "step (ClickCheckUpdate r_yt r_upd r_ff r_deps) st = handleCheckUpdate st r_yt r_upd r_ff r_deps st"
| "step (ClickInstallFfmpeg r_inst r_deps) st = handleInstallFfmpeg r_inst r_deps st"
| "step ClickSkipFfmpeg st = handleDeclineFfmpeg st"
| "step (Backend e) st = (on_event e st, [])"


section \<open>Vocabulary of the properties\<close>

text \<open>The line a log event carries, and the value a progress event carries.\<close>

fun log_payload :: "event \<Rightarrow> jsstring option" where
  "log_payload (DownloadLog payload) = Some payload"
| "log_payload (UpdateLog payload) = Some payload"
| "log_payload (DownloadProgress payload) = None"
| "log_payload (DownloadComplete payload) = None"

fun progress_payload :: "event \<Rightarrow> real option" where
  "progress_payload (DownloadProgress payload) = Some payload"
| "progress_payload e = None"

fun is_complete :: "event \<Rightarrow> bool" where
  "is_complete (DownloadComplete payload) = True"
| "is_complete e = False"

definition success_event :: event where
  "success_event = DownloadComplete (ascii ''success'')"

text \<open>
  Whether step 1 of the update flow invokes \<open>update_ytdlp\<close>: one of its first two
  branches is taken and the download URL is truthy.
\<close>

definition wants_ytdlp :: "VersionInfo \<Rightarrow> bool" where
  "wants_ytdlp ytInfo =
     ((\<not> truthy_opt (local ytInfo) \<or> update_available ytInfo)
      \<and> truthy_opt (download_url ytInfo))"



section \<open>Sample inputs\<close>

definition busy_state :: app_state where
  "busy_state =
     \<lparr>url = ascii ''https://youtu.be/abc123'', format = ascii ''mp3'', playlist = True,
      savePath = ascii ''C:/Music'', logs = [ascii ''old line''], progress = 100,
      status = ascii ''Download complete'', downloading = False,
      deps = \<lparr>ytdlp = True, ffmpeg = True\<rparr>, updating = False,
      showFfmpegPrompt = False\<rparr>"

definition padded_url :: jsstring where
  "padded_url = ascii ''  https://youtu.be/abc123'' @ [0xA0, 0xA]"

definition blank_url :: jsstring where
  "blank_url = ascii ''  '' @ [0x3000, 0x9]"

definition not_installed_info :: VersionInfo where
  "not_installed_info =
     \<lparr>local = None, latest = Some (ascii ''2024.06.10''),
      download_url = Some (ascii ''https://example.org/yt-dlp.exe''), update_available = False\<rparr>"

definition up_to_date_info :: VersionInfo where
  "up_to_date_info =
     \<lparr>local = Some (ascii ''2024.06.10''), latest = Some (ascii ''2024.06.10''),
      download_url = Some (ascii ''https://example.org/yt-dlp.exe''), update_available = False\<rparr>"

definition stale_info :: VersionInfo where
  "stale_info =
     \<lparr>local = Some (ascii ''2024.01.01''), latest = Some (ascii ''2024.06.10''),
      download_url = Some (ascii ''https://example.org/yt-dlp.exe''), update_available = True\<rparr>"

definition ffmpeg_missing :: FfmpegInfo where
  "ffmpeg_missing = \<lparr>installed = False, version = None\<rparr>"

definition ffmpeg_found :: FfmpegInfo where
  "ffmpeg_found = \<lparr>installed = True, version = Some (ascii ''7.1'')\<rparr>"

definition deps_no_ffmpeg :: DepsStatus where
  "deps_no_ffmpeg = \<lparr>ytdlp = True, ffmpeg = False\<rparr>"

definition deps_all :: DepsStatus where
  "deps_all = \<lparr>ytdlp = True, ffmpeg = True\<rparr>"

definition boom :: jsstring where
  "boom = ascii ''yt-dlp is not installed''"

definition rising :: "event list" where
  "rising = [DownloadLog (ascii ''[download]  12.5% of 3.00MiB''), DownloadProgress 12.5,
             DownloadProgress 80, UpdateLog (ascii ''x''), DownloadProgress 100]"

definition falling :: "event list" where
  "falling = [DownloadProgress 50, DownloadProgress 30, success_event]"



lemmas flow_defs = handleCheckUpdate_def check_update_try_def check_ytdlp_branch_def
  update_ytdlp_if_url_def check_ffmpeg_branch_def refreshDeps_def invoke_def
  truthy_opt_def truthy_def Let_def

section \<open>What \<open>trim\<close> removes\<close>

text \<open>
  The trimmed string is the input without a prefix and a suffix of white space, it is
  empty exactly when the input is all white space, and otherwise it neither starts nor
  ends with white space.
\<close>


lemma dropWhile_all_Nil: "(\<forall>x\<in>set (dropWhile P xs). P x) \<longleftrightarrow> dropWhile P xs = []"
proof
  assume all: "\<forall>x\<in>set (dropWhile P xs). P x"
  show "dropWhile P xs = []"
  proof (rule ccontr)
    assume ne: "dropWhile P xs \<noteq> []"
    then have "\<not> P (hd (dropWhile P xs))" by (rule hd_dropWhile)
    moreover have "hd (dropWhile P xs) \<in> set (dropWhile P xs)" using ne by simp
    ultimately show False using all by blast
  qed
next
  assume "dropWhile P xs = []"
  then show "\<forall>x\<in>set (dropWhile P xs). P x" by (simp only: list.set ball_empty)
qed

lemma js_trim_Nil_iff: "js_trim s = [] \<longleftrightarrow> list_all is_white_space s"
proof -
  have "js_trim s = [] \<longleftrightarrow> (\<forall>x\<in>set (dropWhile is_white_space s). is_white_space x)"
    by (simp add: js_trim_def)
  also have "\<dots> \<longleftrightarrow> dropWhile is_white_space s = []" by (rule dropWhile_all_Nil)
  also have "\<dots> \<longleftrightarrow> list_all is_white_space s"
    by (simp add: list_all_iff)
  finally show ?thesis .
qed

lemma dropWhile_split: "\<exists>pre. xs = pre @ dropWhile P xs \<and> list_all P pre"
proof
  show "xs = takeWhile P xs @ dropWhile P xs \<and> list_all P (takeWhile P xs)"
    by (auto simp: list_all_iff dest: set_takeWhileD)
qed

lemma js_trim_decomp:
  "\<exists>pre post. s = pre @ js_trim s @ post \<and> list_all is_white_space pre \<and> list_all is_white_space post"
proof -
  let ?a = "dropWhile is_white_space s"
  obtain pre where pre: "s = pre @ ?a" "list_all is_white_space pre"
    using dropWhile_split by blast
  obtain q where q: "rev ?a = q @ dropWhile is_white_space (rev ?a)" "list_all is_white_space q"
    using dropWhile_split by blast
  have "?a = js_trim s @ rev q"
    using q(1) unfolding js_trim_def by (metis rev_append rev_rev_ident)
  moreover have "list_all is_white_space (rev q)" using q(2) by (simp add: list_all_iff)
  ultimately show ?thesis using pre by (metis)
qed

lemma js_trim_ends:
  assumes "js_trim s \<noteq> []"
  shows "\<not> is_white_space (hd (js_trim s))" "\<not> is_white_space (last (js_trim s))"
proof -
  let ?a = "dropWhile is_white_space s"
  let ?b = "dropWhile is_white_space (rev ?a)"
  have b: "?b \<noteq> []" using assms by (simp add: js_trim_def)
  then have "\<not> is_white_space (hd ?b)" by (rule hd_dropWhile)
  then show "\<not> is_white_space (last (js_trim s))" using b by (simp add: js_trim_def last_rev)
  have a: "?a \<noteq> []" using b by (cases "?a = []") simp_all
  then have ha: "\<not> is_white_space (hd ?a)" by (rule hd_dropWhile)
  have "rev ?a \<noteq> []" using a by simp
  have "last ?b = last (rev ?a)" using b
    by (metis takeWhile_dropWhile_id last_appendR)
  then have "hd (js_trim s) = hd ?a" using a b by (simp add: js_trim_def hd_rev last_rev)
  then show "\<not> is_white_space (hd (js_trim s))" using ha by simp
qed

section \<open>Download requests\<close>

text \<open>
  Claim C5. A download request whose URL is empty is rejected before any invocation:
  the handler invokes nothing (so \<open>start_download\<close> is not invoked), shows the status
  "Enter a URL first", and leaves every other cell as it was: the logs and the progress
  are not reset and \<open>downloading\<close> is not set, so no job is started.
\<close>

theorem empty_url_rejected:
  "url snap = [] \<Longrightarrow> handleDownload snap r st = (st\<lparr>status := ascii ''Enter a URL first''\<rparr>, [])"
  by (simp add: handleDownload_def js_trim_def truthy_def)

theorem empty_url_rejected_witness:
  "url initial_state = [] \<and>
   handleDownload initial_state (Inr ()) initial_state
     = (initial_state\<lparr>status := ascii ''Enter a URL first''\<rparr>, [])"
  using empty_url_rejected [of initial_state "Inr ()" initial_state]
  by (simp add: initial_state_def)

text \<open>
  Claim C8. The URL passed to \<open>start_download\<close> is the trimmed input: whenever the
  trimmed URL is not empty, the handler invokes \<open>save_settings\<close> and then
  \<open>start_download\<close> with \<open>url.trim()\<close>; the trimmed URL is the input without a prefix and
  a suffix of white space, and it neither starts nor ends with white space. An input of
  white space only is handled exactly as the empty URL is, and invokes nothing.
\<close>

theorem download_url_trimmed:
  "(js_trim (url snap) \<noteq> [] \<longrightarrow>
      snd (handleDownload snap r st)
        = [saveCurrentSettings snap no_overrides,
           StartDownload (js_trim (url snap)) (format snap) (playlist snap) (savePath snap)])
   \<and> (list_all is_white_space (url snap) \<longrightarrow>
      handleDownload snap r st = handleDownload (snap\<lparr>url := []\<rparr>) r st
      \<and> snd (handleDownload snap r st) = [])
   \<and> (\<exists>pre post. url snap = pre @ js_trim (url snap) @ post
         \<and> list_all is_white_space pre \<and> list_all is_white_space post)
   \<and> (js_trim (url snap) \<noteq> [] \<longrightarrow>
         \<not> is_white_space (hd (js_trim (url snap)))
         \<and> \<not> is_white_space (last (js_trim (url snap))))"
proof (intro conjI impI)
  assume "js_trim (url snap) \<noteq> []"
  then show "snd (handleDownload snap r st)
        = [saveCurrentSettings snap no_overrides,
           StartDownload (js_trim (url snap)) (format snap) (playlist snap) (savePath snap)]"
    by (cases r) (simp_all add: handleDownload_def truthy_def invoke_def)
next
  assume "list_all is_white_space (url snap)"
  then have t: "js_trim (url snap) = []" by (simp add: js_trim_Nil_iff)
  have e: "js_trim [] = []" by (simp add: js_trim_def)
  show "handleDownload snap r st = handleDownload (snap\<lparr>url := []\<rparr>) r st"
    by (simp add: handleDownload_def truthy_def t e)
  show "snd (handleDownload snap r st) = []"
    by (simp add: handleDownload_def truthy_def t)
next
  show "\<exists>pre post. url snap = pre @ js_trim (url snap) @ post
         \<and> list_all is_white_space pre \<and> list_all is_white_space post"
    by (rule js_trim_decomp)
next
  assume "js_trim (url snap) \<noteq> []"
  then show "\<not> is_white_space (hd (js_trim (url snap)))"
    and "\<not> is_white_space (last (js_trim (url snap)))"
    by (rule js_trim_ends)+
qed

theorem download_url_trimmed_witness:
  "snd (handleDownload (initial_state\<lparr>url := padded_url\<rparr>) (Inr ()) initial_state)
     = [SaveSettings \<lparr>save_path = [], audio_format = ascii ''best'', playlist_mode = False\<rparr>,
        StartDownload (ascii ''https://youtu.be/abc123'') (ascii ''best'') False []]
   \<and> handleDownload (initial_state\<lparr>url := blank_url\<rparr>) (Inr ()) initial_state
     = (initial_state\<lparr>status := ascii ''Enter a URL first''\<rparr>, [])"
proof -
  have t: "js_trim padded_url = ascii ''https://youtu.be/abc123''"
    by (simp add: padded_url_def js_trim_def ascii_def is_white_space_def)
  have w: "list_all is_white_space blank_url"
    by (simp add: blank_url_def ascii_def is_white_space_def)
  have ne: "ascii ''https://youtu.be/abc123'' \<noteq> []" by (simp add: ascii_def)
  have e: "js_trim [] = []" by (simp add: js_trim_def)
  from download_url_trimmed [of "initial_state\<lparr>url := padded_url\<rparr>" "Inr ()" initial_state]
  have 1: "snd (handleDownload (initial_state\<lparr>url := padded_url\<rparr>) (Inr ()) initial_state)
     = [SaveSettings \<lparr>save_path = [], audio_format = ascii ''best'', playlist_mode = False\<rparr>,
        StartDownload (ascii ''https://youtu.be/abc123'') (ascii ''best'') False []]"
    using ne by (simp add: t saveCurrentSettings_def no_overrides_def nullish_def initial_state_def)
  from download_url_trimmed [of "initial_state\<lparr>url := blank_url\<rparr>" "Inr ()" initial_state]
  have 2: "handleDownload (initial_state\<lparr>url := blank_url\<rparr>) (Inr ()) initial_state
     = (initial_state\<lparr>status := ascii ''Enter a URL first''\<rparr>, [])"
    using w by (simp add: handleDownload_def truthy_def e)
  from 1 2 show ?thesis by simp
qed

text \<open>
  Claim C9. An accepted download request (its trimmed URL is not empty) resets the
  view: whatever \<open>start_download\<close> answers, the handler leaves the log list empty and the
  progress at 0, and the commands it invokes are \<open>save_settings\<close> with the current save
  path, audio format and playlist mode, then \<open>start_download\<close>, in this order.
\<close>

theorem download_resets_view:
  "truthy (js_trim (url snap)) \<Longrightarrow>
     logs (fst (handleDownload snap r st)) = []
     \<and> progress (fst (handleDownload snap r st)) = 0
     \<and> snd (handleDownload snap r st)
         = [SaveSettings \<lparr>save_path = savePath snap, audio_format = format snap,
                          playlist_mode = playlist snap\<rparr>,
            StartDownload (js_trim (url snap)) (format snap) (playlist snap) (savePath snap)]"
  by (cases r) (simp_all add: handleDownload_def invoke_def saveCurrentSettings_def
      no_overrides_def nullish_def)

theorem download_resets_view_witness:
  "truthy (js_trim (url busy_state))
   \<and> logs (fst (handleDownload busy_state (Inr ()) busy_state)) = []
   \<and> progress (fst (handleDownload busy_state (Inr ()) busy_state)) = 0
   \<and> snd (handleDownload busy_state (Inr ()) busy_state)
       = [SaveSettings \<lparr>save_path = ascii ''C:/Music'', audio_format = ascii ''mp3'',
                        playlist_mode = True\<rparr>,
          StartDownload (ascii ''https://youtu.be/abc123'') (ascii ''mp3'') True (ascii ''C:/Music'')]"
proof -
  have t: "js_trim (url busy_state) = ascii ''https://youtu.be/abc123''"
    by (simp add: busy_state_def js_trim_def ascii_def is_white_space_def)
  have h: "truthy (js_trim (url busy_state))"
    by (simp add: t truthy_def ascii_def)
  from download_resets_view [OF h, of "Inr ()" busy_state] h show ?thesis
    by (simp add: t) (simp add: busy_state_def)
qed

section \<open>Events of a job\<close>

text \<open>
  Claim C7. After any sequence of backend events, the log list is the log list before
  it followed by the lines of the \<open>download-log\<close> and \<open>update-log\<close> events, each once and
  in the order of arrival; progress and completion events in between change nothing
  of it.
\<close>

theorem logs_appended_in_order:
  "logs (deliver es st) = logs st @ List.map_filter log_payload es"
proof (induction es arbitrary: st)
  case Nil
  show ?case by (simp add: map_filter_simps)
next
  case (Cons e es)
  show ?case by (cases e) (simp_all add: Cons.IH map_filter_simps Let_def)
qed

lemma success_progress: "progress (on_event success_event st) = 100"
  by (simp add: success_event_def Let_def)

lemma deliver_append: "deliver (es @ fs) st = deliver fs (deliver es st)"
  by (induction es arbitrary: st) simp_all

lemma observed_sorted:
  "\<forall>e\<in>set es. \<not> is_complete e \<Longrightarrow> progress st \<le> 100
   \<Longrightarrow> sorted (progress st # List.map_filter progress_payload es)
   \<Longrightarrow> \<forall>p\<in>set (List.map_filter progress_payload es). p \<le> 100
   \<Longrightarrow> sorted (progress st # map progress (observed (es @ [success_event]) st))"
proof (induction es arbitrary: st)
  case Nil
  then show ?case by (simp add: success_progress)
next
  case (Cons e es)
  show ?case
  proof (cases e)
    case (DownloadLog l)
    with Cons.prems
    have "sorted (progress (on_event e st)
            # map progress (observed (es @ [success_event]) (on_event e st)))"
      by (intro Cons.IH) (simp_all add: map_filter_simps)
    with DownloadLog show ?thesis by simp
  next
    case (DownloadProgress p)
    with Cons.prems
    have "sorted (progress (on_event e st)
            # map progress (observed (es @ [success_event]) (on_event e st)))"
      by (intro Cons.IH) (simp_all add: map_filter_simps)
    with DownloadProgress Cons.prems show ?thesis
      by (fastforce simp add: map_filter_simps)
  next
    case (DownloadComplete c)
    with Cons.prems show ?thesis by simp
  next
    case (UpdateLog l)
    with Cons.prems
    have "sorted (progress (on_event e st)
            # map progress (observed (es @ [success_event]) (on_event e st)))"
      by (intro Cons.IH) (simp_all add: map_filter_simps)
    with UpdateLog show ?thesis by simp
  qed
qed

text \<open>
  Claim C3, as stated, fails: the \<open>download-progress\<close> listener stores the payload as it
  comes, with no comparison to the value shown before. A job started by the Download
  button that receives the payloads 50 and 30 and then completes with "success" shows
  50, 30, 100.
\<close>

theorem progress_not_monotone:
  "map progress (observed falling (fst (step (ClickDownload (Inr ())) busy_state))) = [50, 30, 100]
   \<and> \<not> sorted (map progress (observed falling (fst (step (ClickDownload (Inr ())) busy_state))))"
  by (simp add: falling_def success_event_def Let_def)

text \<open>
  Claim C3, amended. The progress shown after a \<open>download-progress\<close> event is that
  event's payload, and after the completion event with outcome "success" it is 100. So
  the values shown during a job (the events before its completion, then the success)
  are non-decreasing whenever the payloads delivered are: they start at or above the
  value shown before, do not decrease, and do not exceed 100.
\<close>

theorem progress_follows_payloads:
  "progress (on_event (DownloadProgress p) st) = p
   \<and> progress (deliver (es @ [success_event]) st) = 100
   \<and> ((\<forall>e\<in>set es. \<not> is_complete e) \<and> progress st \<le> 100
        \<and> sorted (progress st # List.map_filter progress_payload es)
        \<and> (\<forall>p\<in>set (List.map_filter progress_payload es). p \<le> 100)
      \<longrightarrow> sorted (progress st # map progress (observed (es @ [success_event]) st)))"
  using observed_sorted [of es st]
  by (simp add: deliver_append success_progress)

theorem progress_follows_payloads_witness:
  "progress (on_event (DownloadProgress 12.5) initial_state) = 12.5
   \<and> progress (deliver (rising @ [success_event]) initial_state) = 100
   \<and> sorted (progress initial_state
        # map progress (observed (rising @ [success_event]) initial_state))"
proof -
  have h: "(\<forall>e\<in>set rising. \<not> is_complete e) \<and> progress initial_state \<le> 100
        \<and> sorted (progress initial_state # List.map_filter progress_payload rising)
        \<and> (\<forall>p\<in>set (List.map_filter progress_payload rising). p \<le> 100)"
    by (simp add: rising_def initial_state_def map_filter_simps)
  from progress_follows_payloads [of "12.5" initial_state rising] h show ?thesis
    by blast
qed

text \<open>
  Claim C1. When \<open>cancel_download\<close> succeeds the cancel handler shows "Cancelled", but
  the \<open>download-complete\<close> listener knows one good outcome only: the payload "cancelled"
  takes its \<open>else\<close> branch and the status becomes "Download failed (cancelled)", also
  when it arrives after the cancel handler has shown "Cancelled".
\<close>

theorem cancelled_shown_as_failure:
  "status (fst (handleCancel (Inr ()) st)) = ascii ''Cancelled''
   \<and> status (on_event (DownloadComplete (ascii ''cancelled'')) st)
       = ascii ''Download failed (cancelled)''
   \<and> status (on_event (DownloadComplete (ascii ''cancelled'')) (fst (handleCancel (Inr ()) st)))
       = ascii ''Download failed (cancelled)''"
  by (simp add: handleCancel_def invoke_def Let_def ascii_def)

section \<open>The update flow\<close>

text \<open>
  Claim C4. When \<open>check_ytdlp_update\<close> answers with no local version and a download URL
  (a non-empty string), the first two commands of the update flow are the check and
  \<open>update_ytdlp\<close> with that URL, whatever \<open>update_available\<close> is and whatever the later
  invocations answer.
\<close>

theorem first_time_install:
  "local ytInfo = None \<Longrightarrow> download_url ytInfo = Some u \<Longrightarrow> u \<noteq> []
   \<Longrightarrow> take 2 (snd (handleCheckUpdate snap (Inr ytInfo) r_upd r_ff r_deps st))
         = [CheckYtdlpUpdate, UpdateYtdlp u]"
  by (cases r_upd; cases r_ff; cases r_deps)
     (simp_all add: flow_defs split: prod.splits)

theorem first_time_install_witness:
  "local not_installed_info = None
   \<and> download_url not_installed_info = Some (ascii ''https://example.org/yt-dlp.exe'')
   \<and> ascii ''https://example.org/yt-dlp.exe'' \<noteq> []
   \<and> \<not> update_available not_installed_info
   \<and> take 2 (snd (handleCheckUpdate initial_state (Inr not_installed_info) (Inr ())
                    (Inr ffmpeg_found) (Inr deps_all) initial_state))
         = [CheckYtdlpUpdate, UpdateYtdlp (ascii ''https://example.org/yt-dlp.exe'')]"
proof -
  have a: "local not_installed_info = None" by (simp add: not_installed_info_def)
  have b: "download_url not_installed_info = Some (ascii ''https://example.org/yt-dlp.exe'')"
    by (simp add: not_installed_info_def)
  have c: "ascii ''https://example.org/yt-dlp.exe'' \<noteq> []" by (simp add: ascii_def)
  have d: "\<not> update_available not_installed_info" by (simp add: not_installed_info_def)
  from first_time_install [OF a b c] a b c d show ?thesis by simp
qed

text \<open>
  Claim C2. From the initial state, an update check that finds yt-dlp up to date and
  ffmpeg missing ends with the confirmation prompt displayed and \<open>updating\<close> false: the
  \<open>finally\<close> block tests the \<open>showFfmpegPrompt\<close> of the render that created the handler,
  which is false. The Check Update button is enabled again while the prompt waits for its
  answer.
\<close>

theorem updating_cleared_while_prompt_shown:
  "showFfmpegPrompt (fst (step (ClickCheckUpdate (Inr up_to_date_info) (Inr ()) (Inr ffmpeg_missing)
                                  (Inr deps_no_ffmpeg)) initial_state))
   \<and> \<not> updating (fst (step (ClickCheckUpdate (Inr up_to_date_info) (Inr ()) (Inr ffmpeg_missing)
                                  (Inr deps_no_ffmpeg)) initial_state))
   \<and> enabled (fst (step (ClickCheckUpdate (Inr up_to_date_info) (Inr ()) (Inr ffmpeg_missing)
                                  (Inr deps_no_ffmpeg)) initial_state))
        (ClickCheckUpdate (Inr up_to_date_info) (Inr ()) (Inr ffmpeg_missing) (Inr deps_no_ffmpeg))"
  by (simp add: flow_defs up_to_date_info_def ffmpeg_missing_def
        deps_no_ffmpeg_def initial_state_def ascii_def)

section \<open>Errors\<close>

text \<open>
  Claim C6, as stated, fails: not every failing invocation is surfaced. An accepted
  download request invokes \<open>save_settings\<close> and drops its promise; when that invocation
  is rejected the status is "Downloading...", and the whole result is the one of a
  resolved \<open>save_settings\<close>. On mount, rejected \<open>get_settings\<close> and
  \<open>check_dependencies\<close> leave the status at "Ready".
\<close>

theorem dropped_rejections_swallowed:
  "snd (download_request busy_state (Inl boom) (Inr ()) busy_state)
     = [SaveSettings \<lparr>save_path = ascii ''C:/Music'', audio_format = ascii ''mp3'',
                      playlist_mode = True\<rparr>,
        StartDownload (ascii ''https://youtu.be/abc123'') (ascii ''mp3'') True (ascii ''C:/Music'')]
   \<and> status (fst (download_request busy_state (Inl boom) (Inr ()) busy_state))
       = ascii ''Downloading...''
   \<and> download_request busy_state (Inl boom) (Inr ()) busy_state
       = download_request busy_state (Inr ()) (Inr ()) busy_state
   \<and> on_mount (Inl boom) (Inl boom) initial_state
       = (initial_state, [GetSettings, CheckDependencies])
   \<and> status initial_state = ascii ''Ready''"
proof -
  have t: "js_trim (url busy_state) = ascii ''https://youtu.be/abc123''"
    by (simp add: busy_state_def js_trim_def ascii_def is_white_space_def)
  have ne: "truthy (ascii ''https://youtu.be/abc123'')"
    by (simp add: truthy_def ascii_def)
  have d: "download_request busy_state (Inl boom) (Inr ()) busy_state
             = handleDownload busy_state (Inr ()) busy_state"
    using ne by (simp add: download_request_def save_settings_settled_def t split: prod.splits)
  have d': "download_request busy_state (Inr ()) (Inr ()) busy_state
             = handleDownload busy_state (Inr ()) busy_state"
    using ne by (simp add: download_request_def save_settings_settled_def t split: prod.splits)
  have h: "handleDownload busy_state (Inr ()) busy_state
             = (busy_state\<lparr>logs := [], progress := 0, downloading := True,
                           status := ascii ''Downloading...''\<rparr>,
                [SaveSettings \<lparr>save_path = ascii ''C:/Music'', audio_format = ascii ''mp3'',
                                 playlist_mode = True\<rparr>,
                 StartDownload (ascii ''https://youtu.be/abc123'') (ascii ''mp3'') True
                   (ascii ''C:/Music'')])"
    using ne by (simp add: handleDownload_def invoke_def saveCurrentSettings_def
        no_overrides_def nullish_def t) (simp add: busy_state_def)
  have m: "on_mount (Inl boom) (Inl boom) initial_state
             = (initial_state, [GetSettings, CheckDependencies])"
    by (simp add: on_mount_def)
  have r: "status initial_state = ascii ''Ready''" by (simp add: initial_state_def)
  from d d' h m r show ?thesis by simp
qed

text \<open>
  Claim C6, amended. A rejected invocation that a handler awaits inside its \<open>try\<close>
  ends in the status text with the error printed in it: \<open>start_download\<close>
  ("Error: ..."), \<open>cancel_download\<close> ("Cancel error: ..."), each invocation the update
  check awaits (\<open>check_ytdlp_update\<close>, \<open>update_ytdlp\<close> when it is invoked,
  \<open>check_ffmpeg\<close>, \<open>check_dependencies\<close>: "Update check failed: ..."), and
  \<open>install_ffmpeg\<close> with the refresh after it ("ffmpeg install failed: ..."). The
  rejection of a promise the component drops is not surfaced: a rejected
  \<open>save_settings\<close> of a download request gives the result of a resolved one, and on mount
  rejected \<open>get_settings\<close> and \<open>check_dependencies\<close> leave the state as it is.
\<close>

theorem errors_surface_in_status:
  "(truthy (js_trim (url snap)) \<longrightarrow>
      status (fst (handleDownload snap (Inl e) st)) = ascii ''Error: '' @ e)
   \<and> status (fst (handleCancel (Inl e) st)) = ascii ''Cancel error: '' @ e
   \<and> status (fst (handleCheckUpdate snap (Inl e) r_upd r_ff r_deps st))
       = ascii ''Update check failed: '' @ e
   \<and> (wants_ytdlp ytInfo \<longrightarrow>
        status (fst (handleCheckUpdate snap (Inr ytInfo) (Inl e) r_ff r_deps st))
          = ascii ''Update check failed: '' @ e)
   \<and> (\<not> wants_ytdlp ytInfo \<or> r_upd = Inr () \<longrightarrow>
        status (fst (handleCheckUpdate snap (Inr ytInfo) r_upd (Inl e) r_deps st))
          = ascii ''Update check failed: '' @ e)
   \<and> (\<not> wants_ytdlp ytInfo \<or> r_upd = Inr () \<longrightarrow>
        status (fst (handleCheckUpdate snap (Inr ytInfo) r_upd (Inr ffInfo) (Inl e) st))
          = ascii ''Update check failed: '' @ e)
   \<and> status (fst (handleInstallFfmpeg (Inl e) r_deps st)) = ascii ''ffmpeg install failed: '' @ e
   \<and> status (fst (handleInstallFfmpeg (Inr ()) (Inl e) st)) = ascii ''ffmpeg install failed: '' @ e
   \<and> download_request snap (Inl e) r_start st = download_request snap (Inr ()) r_start st
   \<and> on_mount (Inl e) (Inl e') st = (st, [GetSettings, CheckDependencies])"
proof (intro conjI impI)
  show "download_request snap (Inl e) r_start st = download_request snap (Inr ()) r_start st"
    by (simp add: download_request_def save_settings_settled_def)
next
  show "on_mount (Inl e) (Inl e') st = (st, [GetSettings, CheckDependencies])"
    by (simp add: on_mount_def)
next
  assume "truthy (js_trim (url snap))"
  then show "status (fst (handleDownload snap (Inl e) st)) = ascii ''Error: '' @ e"
    by (simp add: handleDownload_def invoke_def)
next
  show "status (fst (handleCancel (Inl e) st)) = ascii ''Cancel error: '' @ e"
    by (simp add: handleCancel_def invoke_def)
next
  show "status (fst (handleCheckUpdate snap (Inl e) r_upd r_ff r_deps st))
       = ascii ''Update check failed: '' @ e"
    by (simp add: flow_defs)
next
  assume "wants_ytdlp ytInfo"
  then show "status (fst (handleCheckUpdate snap (Inr ytInfo) (Inl e) r_ff r_deps st))
          = ascii ''Update check failed: '' @ e"
    by (auto simp add: flow_defs wants_ytdlp_def split: option.splits)
next
  assume "\<not> wants_ytdlp ytInfo \<or> r_upd = Inr ()"
  then show "status (fst (handleCheckUpdate snap (Inr ytInfo) r_upd (Inl e) r_deps st))
          = ascii ''Update check failed: '' @ e"
    by (auto simp add: flow_defs wants_ytdlp_def split: option.splits)
next
  assume "\<not> wants_ytdlp ytInfo \<or> r_upd = Inr ()"
  then show "status (fst (handleCheckUpdate snap (Inr ytInfo) r_upd (Inr ffInfo) (Inl e) st))
          = ascii ''Update check failed: '' @ e"
    by (auto simp add: flow_defs wants_ytdlp_def split: option.splits)
next
  show "status (fst (handleInstallFfmpeg (Inl e) r_deps st)) = ascii ''ffmpeg install failed: '' @ e"
    by (simp add: handleInstallFfmpeg_def invoke_def Let_def)
next
  show "status (fst (handleInstallFfmpeg (Inr ()) (Inl e) st)) = ascii ''ffmpeg install failed: '' @ e"
    by (simp add: handleInstallFfmpeg_def refreshDeps_def invoke_def Let_def)
qed

theorem errors_surface_in_status_witness:
  "truthy (js_trim (url busy_state))
   \<and> wants_ytdlp stale_info
   \<and> status (fst (handleDownload busy_state (Inl boom) busy_state)) = ascii ''Error: '' @ boom
   \<and> status (fst (handleCancel (Inl boom) busy_state)) = ascii ''Cancel error: '' @ boom
   \<and> status (fst (handleCheckUpdate busy_state (Inl boom) (Inr ()) (Inr ffmpeg_found)
                    (Inr deps_all) busy_state))
       = ascii ''Update check failed: '' @ boom
   \<and> status (fst (handleCheckUpdate busy_state (Inr stale_info) (Inl boom) (Inr ffmpeg_found)
                    (Inr deps_all) busy_state))
       = ascii ''Update check failed: '' @ boom
   \<and> status (fst (handleCheckUpdate busy_state (Inr stale_info) (Inr ()) (Inl boom)
                    (Inr deps_all) busy_state))
       = ascii ''Update check failed: '' @ boom
   \<and> status (fst (handleCheckUpdate busy_state (Inr stale_info) (Inr ()) (Inr ffmpeg_found)
                    (Inl boom) busy_state))
       = ascii ''Update check failed: '' @ boom
   \<and> status (fst (handleInstallFfmpeg (Inl boom) (Inr deps_all) busy_state))
       = ascii ''ffmpeg install failed: '' @ boom
   \<and> status (fst (handleInstallFfmpeg (Inr ()) (Inl boom) busy_state))
       = ascii ''ffmpeg install failed: '' @ boom"
proof -
  have t: "truthy (js_trim (url busy_state))"
    by (simp add: busy_state_def js_trim_def ascii_def is_white_space_def truthy_def)
  have w: "wants_ytdlp stale_info"
    by (simp add: wants_ytdlp_def stale_info_def truthy_opt_def truthy_def ascii_def)
  from errors_surface_in_status [where snap = busy_state and e = boom and st = busy_state
      and r_upd = "Inr ()" and r_ff = "Inr ffmpeg_found" and r_deps = "Inr deps_all"
      and ytInfo = stale_info and ffInfo = ffmpeg_found] t w
  show ?thesis by simp
qed

section \<open>Installing ffmpeg\<close>









end
